theory Spec2Isabelle
  imports Main
begin

section \<open>Values of the Python runtime\<close>

text \<open>
  The backend is one Flask module, \<^verbatim>\<open>server/api/app.py\<close>.  Request bodies, store rows
  and upstream replies are JSON documents; after \<^verbatim>\<open>json.loads\<close> they are Python values.
  The type parameter \<open>'f\<close> stands for Python's \<^verbatim>\<open>float\<close>: no handler computes with
  floats, they are only converted, handed to the scaler and classifier, and stored.
  A \<open>JObj\<close> is a Python \<^verbatim>\<open>dict\<close> in insertion order (its keys are distinct).
\<close>

datatype 'f json =
    JNull
  | JBool bool
  | JInt int
  | JFloat 'f
  | JStr string
  | JArr "'f json list"
  | JObj "(string \<times> 'f json) list"

type_synonym 'f row = "(string \<times> 'f json) list"

text \<open>
  Exceptions are values.  \<open>LibraryError\<close> carries what Flask, supabase, requests, numpy
  or scikit-learn raised.
\<close>

datatype exn =
    KeyError string
  | KeyErrorInt int
  | IndexError
  | TypeError
  | AttributeError
  | ValueError
  | LibraryError string

text \<open>\<^verbatim>\<open>d[k]\<close>: a missing key raises \<^verbatim>\<open>KeyError\<close>, a non-dict subscripted by a string
  raises \<^verbatim>\<open>TypeError\<close>.\<close>

fun py_getitem :: "'f json \<Rightarrow> string \<Rightarrow> exn + 'f json" where
  "py_getitem (JObj d) k = (case map_of d k of None \<Rightarrow> Inl (KeyError k) | Some v \<Rightarrow> Inr v)"
| "py_getitem v k = Inl TypeError"

text \<open>\<^verbatim>\<open>d.get(k, default)\<close>: only a dict has the method.\<close>

fun py_get :: "'f json \<Rightarrow> string \<Rightarrow> 'f json \<Rightarrow> exn + 'f json" where
  "py_get (JObj d) k dflt = Inr (case map_of d k of None \<Rightarrow> dflt | Some v \<Rightarrow> v)"
| "py_get v k dflt = Inl AttributeError"

text \<open>\<^verbatim>\<open>s.split(' ')\<close>: every single blank separates, empty pieces are kept.\<close>

fun split_blank :: "string \<Rightarrow> string list" where
  "split_blank [] = [[]]"
| "split_blank (c # cs) =
     (if c = CHR '' '' then [] # split_blank cs
      else (case split_blank cs of [] \<Rightarrow> [[c]] | w # ws \<Rightarrow> (c # w) # ws))"

text \<open>\<^verbatim>\<open>needle in s\<close> on strings: \<open>needle\<close> occurs as a contiguous piece of \<open>s\<close>.\<close>

fun str_contains :: "string \<Rightarrow> string \<Rightarrow> bool" where
  "str_contains needle [] = (needle = [])"
| "str_contains needle (c # cs) =
     (take (length needle) (c # cs) = needle \<or> str_contains needle cs)"

text \<open>\<^verbatim>\<open>k in v\<close> for a string \<open>k\<close>: key membership on a dict, element membership on a
  list, substring on a string, \<^verbatim>\<open>TypeError\<close> on everything else.\<close>

fun py_contains :: "string \<Rightarrow> 'f json \<Rightarrow> exn + bool" where
  "py_contains k (JObj d) = Inr (k \<in> fst ` set d)"
| "py_contains k (JArr xs) = Inr (JStr k \<in> set xs)"
| "py_contains k (JStr s) = Inr (str_contains k s)"
| "py_contains k v = Inl TypeError"

section \<open>External collaborators\<close>

text \<open>
  What \<^verbatim>\<open>supabase.auth.get_user(token)\<close> returns: \<^verbatim>\<open>None\<close> or a response object whose
  \<^verbatim>\<open>user\<close> attribute is \<^verbatim>\<open>None\<close> or a user with an \<^verbatim>\<open>id\<close>.
\<close>

datatype user_response = UserResponse (user: "string option")

text \<open>A numpy array: its shape and its elements in row-major order.\<close>

datatype 'f ndarray = NDArray (shape: "nat list") (flat: "'f list")

text \<open>The store operations whose \<^verbatim>\<open>execute()\<close> can raise, by table name.\<close>

datatype db_op = Select string | Insert string | Upsert string

text \<open>
  Everything the module reaches outside itself is a field of the environment, so every
  theorem below holds for whatever these collaborators do:
  \<^item> \<open>get_user\<close>: the identity provider; \<open>Inl\<close> when it raises;
  \<^item> \<open>model_id\<close>: \<^verbatim>\<open>OLLAMA_MODEL_ID\<close>, unset or a string;
  \<^item> \<open>requests_post\<close>: \<^verbatim>\<open>requests.post(.../api/chat, json=payload)\<close> followed by
    \<^verbatim>\<open>response.json()\<close>; \<open>Inl\<close> on a transport error or a body that is not JSON;
  \<^item> \<open>execute_error\<close>: the exception a store operation raises, if it does;
  \<^item> \<open>doctors_key\<close>: the conflict column of the \<^verbatim>\<open>doctors\<close> table, if it has one;
  \<^item> \<open>py_float\<close>: \<^verbatim>\<open>float(v)\<close>; \<open>np_float\<close>: numpy's conversion of one scalar under
    \<^verbatim>\<open>dtype=float\<close>; \<open>float_nonzero\<close>: the truth value of a float;
  \<^item> \<open>maternal_scaler_transform\<close>, \<open>scaler_transform\<close>: the two fitted scalers;
    \<open>maternal_model_predict\<close>, \<open>model_predict\<close>: the two classifiers, each followed by
    \<^verbatim>\<open>int(prediction[0])\<close>;
  \<^item> \<open>str_exn\<close>: \<^verbatim>\<open>str(e)\<close> of an exception; \<open>py_repr\<close>: how an f-string prints a
    number, a list or a dict;
  \<^item> \<open>dict_of_seq\<close>: \<^verbatim>\<open>dict(v)\<close> for a \<open>v\<close> that is not a dict (it raises, or builds a
    dict from a sequence of pairs).
\<close>

record 'f env =
  get_user :: "string \<Rightarrow> exn + user_response option"
  model_id :: "string option"
  requests_post :: "'f json \<Rightarrow> exn + 'f json"
  execute_error :: "db_op \<Rightarrow> exn option"
  doctors_key :: "string option"
  py_float :: "'f json \<Rightarrow> exn + 'f"
  np_float :: "'f json \<Rightarrow> exn + 'f"
  float_nonzero :: "'f \<Rightarrow> bool"
  maternal_scaler_transform :: "'f list \<Rightarrow> exn + 'f list"
  maternal_model_predict :: "'f list \<Rightarrow> exn + int"
  scaler_transform :: "'f ndarray \<Rightarrow> exn + 'f ndarray"
  model_predict :: "'f ndarray \<Rightarrow> exn + int"
  str_exn :: "exn \<Rightarrow> string"
  py_repr :: "'f json \<Rightarrow> string"
  dict_of_seq :: "'f json \<Rightarrow> exn + 'f row"

text \<open>Python's truth value of a JSON value (\<^verbatim>\<open>not data\<close>).\<close>

fun py_truthy :: "'f env \<Rightarrow> 'f json \<Rightarrow> bool" where
  "py_truthy E JNull = False"
| "py_truthy E (JBool b) = b"
| "py_truthy E (JInt n) = (n \<noteq> 0)"
| "py_truthy E (JFloat x) = float_nonzero E x"
| "py_truthy E (JStr s) = (s \<noteq> [])"
| "py_truthy E (JArr xs) = (xs \<noteq> [])"
| "py_truthy E (JObj d) = (d \<noteq> [])"

text \<open>How an f-string prints a value: \<^verbatim>\<open>f"{v}"\<close>.\<close>

fun py_format :: "'f env \<Rightarrow> 'f json \<Rightarrow> string" where
  "py_format E (JStr s) = s"
| "py_format E JNull = ''None''"
| "py_format E (JBool b) = (if b then ''True'' else ''False'')"
| "py_format E v = py_repr E v"

text \<open>\<^verbatim>\<open>DotDict(v)\<close>, that is \<^verbatim>\<open>dict(v)\<close>: a dict is copied.\<close>

fun dot_dict :: "'f env \<Rightarrow> 'f json \<Rightarrow> exn + 'f row" where
  "dot_dict E (JObj d) = Inr d"
| "dot_dict E v = dict_of_seq E v"

text \<open>Attribute access on a \<^verbatim>\<open>DotDict\<close> is \<^verbatim>\<open>dict.get\<close>: a missing key gives \<^verbatim>\<open>None\<close>.\<close>

definition dot_attr :: "'f row \<Rightarrow> string \<Rightarrow> 'f json" where
  "dot_attr d k = (case map_of d k of None \<Rightarrow> JNull | Some v \<Rightarrow> v)"

text \<open>
  \<^verbatim>\<open>np.array(v, dtype=float)\<close> on a JSON value: a list adds a dimension and its elements
  must have one shape, anything else is one scalar.
\<close>

definition np_stack :: "'f ndarray list \<Rightarrow> exn + 'f ndarray" where
  "np_stack arrs =
     (case arrs of
        [] \<Rightarrow> Inr (NDArray [0] [])
      | a # rest \<Rightarrow>
          if \<forall>b \<in> set rest. shape b = shape a
          then Inr (NDArray (length arrs # shape a) (concat (map flat arrs)))
          else Inl ValueError)"

fun np_array :: "'f env \<Rightarrow> 'f json \<Rightarrow> exn + 'f ndarray"
and np_arrays :: "'f env \<Rightarrow> 'f json list \<Rightarrow> exn + 'f ndarray list" where
  "np_array E (JArr xs) = (case np_arrays E xs of Inl e \<Rightarrow> Inl e | Inr arrs \<Rightarrow> np_stack arrs)"
| "np_array E v = (case np_float E v of Inl e \<Rightarrow> Inl e | Inr x \<Rightarrow> Inr (NDArray [] [x]))"
| "np_arrays E [] = Inr []"
| "np_arrays E (x # xs) =
     (case np_array E x of
        Inl e \<Rightarrow> Inl e
      | Inr a \<Rightarrow> (case np_arrays E xs of Inl e \<Rightarrow> Inl e | Inr arrs \<Rightarrow> Inr (a # arrs)))"

text \<open>\<^verbatim>\<open>a.reshape(1, -1)\<close>: one row holding every element.\<close>

definition reshape_row :: "'f ndarray \<Rightarrow> 'f ndarray" where
  "reshape_row a = NDArray [1, length (flat a)] (flat a)"

section \<open>The record store\<close>

text \<open>
  The four tables the module writes, each a list of rows in insertion order.
\<close>

record 'f store =
  doctors :: "'f row list"
  vitals :: "'f row list"
  ctg :: "'f row list"
  chats :: "'f row list"

text \<open>
  Modelled from the spec: the supabase client and the tables' schema are not part of
  the repository.  The spec gives the store as generic \<^verbatim>\<open>insert(table, row)\<close>,
  \<^verbatim>\<open>upsert(table, row, conflict_key)\<close> and \<^verbatim>\<open>select(table, filter, order, limit)\<close>.
  An insert appends one row.
\<close>

definition db_insert :: "'f row \<Rightarrow> 'f row list \<Rightarrow> 'f row list" where
  "db_insert r t = t @ [r]"

text \<open>
  Modelled from the spec: \<^verbatim>\<open>upsert(table, row, conflict_key)\<close>.  A row that gives a value
  for the conflict column replaces the rows holding that value there; otherwise, and
  when no row holds it, the row is appended.
\<close>

definition upsert :: "string option \<Rightarrow> 'f row \<Rightarrow> 'f row list \<Rightarrow> 'f row list" where
  "upsert key r t =
     (case key of
        None \<Rightarrow> t @ [r]
      | Some k \<Rightarrow>
          (case map_of r k of
             None \<Rightarrow> t @ [r]
           | Some v \<Rightarrow>
               if \<exists>x \<in> set t. map_of x k = Some v
               then map (\<lambda>x. if map_of x k = Some v then r else x) t
               else t @ [r]))"

text \<open>
  Modelled from the spec: the query
  \<^verbatim>\<open>select().eq('UID', uid).order('created_at', desc=True).limit(1)\<close> returns the most
  recently created row of the user, ties broken by insertion order (last write wins),
  or no row.
\<close>

definition select_latest :: "string \<Rightarrow> 'f row list \<Rightarrow> 'f row list" where
  "select_latest uid t =
     (case rev (filter (\<lambda>r. map_of r ''UID'' = Some (JStr uid)) t) of
        [] \<Rightarrow> []
      | r # older \<Rightarrow> [r])"

section \<open>Requests, responses and effects\<close>

text \<open>
  A request as the handlers read it: the \<^verbatim>\<open>Authorization\<close> header, and what
  \<^verbatim>\<open>request.json\<close> (or \<^verbatim>\<open>request.get_json()\<close>) gives: the parsed body, or the exception
  Flask raises on a body that is not JSON.
\<close>

record 'f request =
  authorization :: "string option"
  json_body :: "exn + 'f json"

text \<open>
  A response body is JSON, plain text, or the page Flask sends when a handler lets an
  exception escape.
\<close>

datatype 'f body = Json "'f json" | PlainText string | ServerErrorPage

record 'f response =
  status :: nat
  body :: "'f body"

text \<open>The calls a handler makes to the identity provider and to the chat model.\<close>

datatype 'f upstream = AuthCheck string | ChatRequest "'f json" "'f json"

text \<open>What handling one request does: the response, the store afterwards, the upstream
  calls made, in order.\<close>

record 'f result =
  resp :: "'f response"
  db :: "'f store"
  calls :: "'f upstream list"

type_synonym 'f attempt = "(exn + 'f response) \<times> 'f store \<times> 'f upstream list"

definition error_json :: "string \<Rightarrow> 'f body" where
  "error_json msg = Json (JObj [(''error'', JStr msg)])"

text \<open>\<^verbatim>\<open>try: ... except Exception as e: return jsonify({"error": prefix + str(e)}), 500\<close>\<close>

definition except_500 :: "'f env \<Rightarrow> string \<Rightarrow> 'f attempt \<Rightarrow> 'f result" where
  "except_500 E prefix a =
     (case a of
        (Inl e, st, cs) \<Rightarrow>
          \<lparr>resp = \<lparr>status = 500, body = error_json (prefix @ str_exn E e)\<rparr>, db = st, calls = cs\<rparr>
      | (Inr r, st, cs) \<Rightarrow> \<lparr>resp = r, db = st, calls = cs\<rparr>)"

text \<open>A handler with no \<^verbatim>\<open>try\<close>: Flask answers an escaped exception with its 500 page.\<close>

definition unhandled :: "'f attempt \<Rightarrow> 'f result" where
  "unhandled a =
     (case a of
        (Inl e, st, cs) \<Rightarrow> \<lparr>resp = \<lparr>status = 500, body = ServerErrorPage\<rparr>, db = st, calls = cs\<rparr>
      | (Inr r, st, cs) \<Rightarrow> \<lparr>resp = r, db = st, calls = cs\<rparr>)"

text \<open>
  The header check every protected handler starts with:
  \<^verbatim>\<open>if not auth_header or not auth_header.startswith('Bearer '): return ..., 401\<close>
  and then \<^verbatim>\<open>token = auth_header.split(' ')[1]\<close>.
\<close>

datatype ('f, 'a) step = Raise exn | Return "'f response" | Continue 'a

definition bearer_token :: "'f request \<Rightarrow> ('f, string) step" where
  "bearer_token rq =
     (case authorization rq of
        None \<Rightarrow> Return \<lparr>status = 401, body = error_json ''No valid token provided''\<rparr>
      | Some auth_header \<Rightarrow>
          if auth_header = [] \<or> take 7 auth_header \<noteq> ''Bearer ''
          then Return \<lparr>status = 401, body = error_json ''No valid token provided''\<rparr>
          else (case split_blank auth_header of
                  w # token # ws \<Rightarrow> Continue token
                | ws \<Rightarrow> Raise IndexError))"

section \<open>The chat client\<close>

text \<open>
  \<^verbatim>\<open>chat(model, messages)\<close> posts to the Ollama endpoint and wraps the reply:
  \<^verbatim>\<open>result_obj = DotDict(result)\<close>, then
  \<^verbatim>\<open>result_obj.message = DotDict(result.get("message", {}))\<close>.  Its \<^verbatim>\<open>except\<close> clause
  prints and re-raises, so every exception reaches the caller.  The value returned is
  the wrapped reply together with the \<^verbatim>\<open>DotDict\<close> stored under \<^verbatim>\<open>message\<close>.
\<close>

datatype 'f chat_response = ChatResponse (fields: "'f row") (message: "'f row")

definition chat :: "'f env \<Rightarrow> 'f json \<Rightarrow> 'f json \<Rightarrow> exn + 'f chat_response" where
  "chat E model messages =
     (case requests_post E (JObj [(''model'', model), (''messages'', messages)]) of
        Inl e \<Rightarrow> Inl e
      | Inr result \<Rightarrow>
          (case dot_dict E result of
             Inl e \<Rightarrow> Inl e
           | Inr result_obj \<Rightarrow>
               (case py_get result ''message'' (JObj []) of
                  Inl e \<Rightarrow> Inl e
                | Inr m \<Rightarrow>
                    (case dot_dict E m of
                       Inl e \<Rightarrow> Inl e
                     | Inr msg \<Rightarrow> Inr (ChatResponse result_obj msg)))))"

text \<open>\<^verbatim>\<open>OLLAMA_MODEL_ID = os.environ.get("OLLAMA_MODEL_ID")\<close>\<close>

definition OLLAMA_MODEL_ID :: "'f env \<Rightarrow> 'f json" where
  "OLLAMA_MODEL_ID E = (case model_id E of None \<Rightarrow> JNull | Some s \<Rightarrow> JStr s)"

section \<open>The handlers\<close>

subsection \<open>POST /create_doctor_profile\<close>

text \<open>A dict literal whose values are \<^verbatim>\<open>data.get(k)\<close>, evaluated in order.\<close>

fun get_fields :: "'f json \<Rightarrow> string list \<Rightarrow> exn + 'f row" where
  "get_fields data [] = Inr []"
| "get_fields data (k # ks) =
     (case py_get data k JNull of
        Inl e \<Rightarrow> Inl e
      | Inr v \<Rightarrow> (case get_fields data ks of Inl e \<Rightarrow> Inl e | Inr r \<Rightarrow> Inr ((k, v) # r)))"

definition create_doctor_profile_try :: "'f env \<Rightarrow> 'f request \<Rightarrow> 'f store \<Rightarrow> 'f attempt" where
  "create_doctor_profile_try E rq st =
     (case json_body rq of
        Inl e \<Rightarrow> (Inl e, st, [])
      | Inr data \<Rightarrow>
          (case get_fields data
                  [''name'', ''phone'', ''specialty'', ''location'', ''profile_image_url''] of
             Inl e \<Rightarrow> (Inl e, st, [])
           | Inr doctor_data \<Rightarrow>
               (case execute_error E (Upsert ''doctors'') of
                  Some e \<Rightarrow> (Inl e, st, [])
                | None \<Rightarrow>
                    (Inr \<lparr>status = 200,
                          body = Json (JObj
                            [(''message'', JStr ''Doctor profile created successfully''),
                             (''data'', JArr [JObj doctor_data])])\<rparr>,
                     st\<lparr>doctors := upsert (doctors_key E) doctor_data (doctors st)\<rparr>,
                     []))))"

definition create_doctor_profile :: "'f env \<Rightarrow> 'f request \<Rightarrow> 'f store \<Rightarrow> 'f result" where
  "create_doctor_profile E rq st = except_500 E [] (create_doctor_profile_try E rq st)"

subsection \<open>POST /predict_maternal\<close>

text \<open>\<^verbatim>\<open>[float(data[k]) for each k]\<close>, evaluated in order.\<close>

fun float_items :: "'f env \<Rightarrow> 'f json \<Rightarrow> string list \<Rightarrow> exn + 'f list" where
  "float_items E data [] = Inr []"
| "float_items E data (k # ks) =
     (case py_getitem data k of
        Inl e \<Rightarrow> Inl e
      | Inr v \<Rightarrow>
          (case py_float E v of
             Inl e \<Rightarrow> Inl e
           | Inr x \<Rightarrow> (case float_items E data ks of Inl e \<Rightarrow> Inl e | Inr xs \<Rightarrow> Inr (x # xs))))"

text \<open>A dict literal whose values are \<^verbatim>\<open>data[k]\<close>, evaluated in order.\<close>

fun items :: "'f json \<Rightarrow> string list \<Rightarrow> exn + 'f row" where
  "items data [] = Inr []"
| "items data (k # ks) =
     (case py_getitem data k of
        Inl e \<Rightarrow> Inl e
      | Inr v \<Rightarrow> (case items data ks of Inl e \<Rightarrow> Inl e | Inr r \<Rightarrow> Inr ((k, v) # r)))"

text \<open>\<^verbatim>\<open>risk_mapping = {0: "Normal", 1: "Suspect", 2: "Pathological"}\<close>, subscripted.\<close>

definition risk_mapping :: "int \<Rightarrow> exn + string" where
  "risk_mapping label =
     (if label = 0 then Inr ''Normal''
      else if label = 1 then Inr ''Suspect''
      else if label = 2 then Inr ''Pathological''
      else Inl (KeyErrorInt label))"

text \<open>
  The \<^verbatim>\<open>vital_data\<close> literal: \<^verbatim>\<open>user_data.user.id\<close> first (an \<^verbatim>\<open>AttributeError\<close> when
  \<^verbatim>\<open>user\<close> is \<^verbatim>\<open>None\<close>), then five of the six request fields as submitted, then the
  label id.
\<close>

definition vital_data :: "user_response \<Rightarrow> 'f json \<Rightarrow> int \<Rightarrow> exn + 'f row" where
  "vital_data user_data data label =
     (case user user_data of
        None \<Rightarrow> Inl AttributeError
      | Some uid \<Rightarrow>
          (case items data
                  [''systolic_bp'', ''diastolic_bp'', ''blood_glucose'', ''body_temp'',
                   ''heart_rate''] of
             Inl e \<Rightarrow> Inl e
           | Inr r \<Rightarrow> Inr ((''UID'', JStr uid) # r @ [(''prediction'', JInt label)])))"

definition predict_maternal_try :: "'f env \<Rightarrow> 'f request \<Rightarrow> 'f store \<Rightarrow> 'f attempt" where
  "predict_maternal_try E rq st =
     (case bearer_token rq of
        Raise e \<Rightarrow> (Inl e, st, [])
      | Return r \<Rightarrow> (Inr r, st, [])
      | Continue token \<Rightarrow>
     (case get_user E token of
        Inl e \<Rightarrow> (Inl e, st, [AuthCheck token])
      | Inr None \<Rightarrow>
          (Inr \<lparr>status = 401, body = error_json ''Invalid token''\<rparr>, st, [AuthCheck token])
      | Inr (Some user_data) \<Rightarrow>
     (case json_body rq of
        Inl e \<Rightarrow> (Inl e, st, [AuthCheck token])
      | Inr data \<Rightarrow>
     (case float_items E data
             [''age'', ''systolic_bp'', ''diastolic_bp'', ''blood_glucose'', ''body_temp'',
              ''heart_rate''] of
        Inl e \<Rightarrow> (Inl e, st, [AuthCheck token])
      | Inr features \<Rightarrow>
     (case maternal_scaler_transform E features of
        Inl e \<Rightarrow> (Inl e, st, [AuthCheck token])
      | Inr scaled_features \<Rightarrow>
     (case maternal_model_predict E scaled_features of
        Inl e \<Rightarrow> (Inl e, st, [AuthCheck token])
      | Inr prediction \<Rightarrow>
     (case risk_mapping prediction of
        Inl e \<Rightarrow> (Inl e, st, [AuthCheck token])
      | Inr risk_level \<Rightarrow>
     (case vital_data user_data data prediction of
        Inl e \<Rightarrow> (Inl e, st, [AuthCheck token])
      | Inr row \<Rightarrow>
     (case execute_error E (Insert ''vitals'') of
        Some e \<Rightarrow> (Inl e, st, [AuthCheck token])
      | None \<Rightarrow>
          (Inr \<lparr>status = 200, body = Json (JObj [(''prediction'', JStr risk_level)])\<rparr>,
           st\<lparr>vitals := db_insert row (vitals st)\<rparr>,
           [AuthCheck token]))))))))))"

definition predict_maternal :: "'f env \<Rightarrow> 'f request \<Rightarrow> 'f store \<Rightarrow> 'f result" where
  "predict_maternal E rq st = except_500 E [] (predict_maternal_try E rq st)"

subsection \<open>POST /predict_fetal\<close>

text \<open>\<^verbatim>\<open>health_status = {1: "Normal", 2: "Suspect", 3: "Pathological"}\<close>, read with
  \<^verbatim>\<open>health_status.get(prediction, "Unknown")\<close>.\<close>

definition health_status :: "int \<Rightarrow> string" where
  "health_status prediction =
     (if prediction = 1 then ''Normal''
      else if prediction = 2 then ''Suspect''
      else if prediction = 3 then ''Pathological''
      else ''Unknown'')"

definition feature_names :: "string list" where
  "feature_names =
     [''baseline_value'', ''accelerations'', ''fetal_movement'', ''uterine_contractions'',
      ''light_decelerations'', ''severe_decelerations'', ''prolonged_decelerations'',
      ''abnormal_short_term_variability'', ''mean_value_of_short_term_variability'',
      ''percentage_of_time_with_abnormal_long_term_variability'',
      ''mean_value_of_long_term_variability'',
      ''histogram_width'', ''histogram_min'', ''histogram_max'', ''histogram_number_of_peaks'']"

text \<open>\<^verbatim>\<open>{'UID': user_data.user.id, **feature_dict, 'prediction': prediction}\<close> with
  \<^verbatim>\<open>feature_dict = {k: float(v) for k, v in zip(feature_names, features.flatten())}\<close>.\<close>

definition ctg_data :: "string \<Rightarrow> 'f ndarray \<Rightarrow> int \<Rightarrow> 'f row" where
  "ctg_data uid features prediction =
     (''UID'', JStr uid)
       # map (\<lambda>(k, v). (k, JFloat v)) (zip feature_names (flat features))
       @ [(''prediction'', JInt prediction)]"

text \<open>
  The handler after its token check.  The inner \<^verbatim>\<open>try\<close> blocks around the scaler, the
  classifier and the insert answer 500 themselves; every other exception reaches the
  outer \<^verbatim>\<open>except\<close>.  \<^verbatim>\<open>features.shape[0]\<close> raises \<^verbatim>\<open>IndexError\<close> on a 0-dimensional
  array.
\<close>

definition predict_fetal_pipeline ::
  "'f env \<Rightarrow> 'f request \<Rightarrow> string \<Rightarrow> 'f store \<Rightarrow> (exn + 'f response) \<times> 'f store" where
  "predict_fetal_pipeline E rq uid st =
     (case json_body rq of
        Inl e \<Rightarrow> (Inl e, st)
      | Inr data \<Rightarrow>
     if \<not> py_truthy E data
     then (Inr \<lparr>status = 400, body = error_json ''Missing required feature data''\<rparr>, st)
     else
     (case py_contains ''features'' data of
        Inl e \<Rightarrow> (Inl e, st)
      | Inr False \<Rightarrow>
          (Inr \<lparr>status = 400, body = error_json ''Missing required feature data''\<rparr>, st)
      | Inr True \<Rightarrow>
     (case py_getitem data ''features'' of
        Inl e \<Rightarrow> (Inl e, st)
      | Inr v \<Rightarrow>
     (case np_array E v of
        Inl e \<Rightarrow> (Inl e, st)
      | Inr features \<Rightarrow>
     (case shape features of
        [] \<Rightarrow> (Inl IndexError, st)
      | n # dims \<Rightarrow>
     if n \<noteq> 15
     then (Inr \<lparr>status = 400, body = error_json ''Invalid feature length, expected 15''\<rparr>, st)
     else
     (case scaler_transform E (reshape_row features) of
        Inl e \<Rightarrow>
          (Inr \<lparr>status = 500, body = error_json (''Feature scaling failed: '' @ str_exn E e)\<rparr>,
           st)
      | Inr scaled_features \<Rightarrow>
     (case model_predict E scaled_features of
        Inl e \<Rightarrow>
          (Inr \<lparr>status = 500, body = error_json (''Prediction failed: '' @ str_exn E e)\<rparr>, st)
      | Inr prediction \<Rightarrow>
     (case execute_error E (Insert ''ctg'') of
        Some e \<Rightarrow>
          (Inr \<lparr>status = 500,
                body = error_json (''Database insert failed: '' @ str_exn E e)\<rparr>, st)
      | None \<Rightarrow>
          (Inr \<lparr>status = 200,
                body = Json (JObj [(''prediction'', JInt prediction),
                                   (''status'', JStr (health_status prediction))])\<rparr>,
           st\<lparr>ctg := db_insert (ctg_data uid (reshape_row features) prediction) (ctg st)\<rparr>)
     ))))))))"

text \<open>
  The token check of this handler has a \<^verbatim>\<open>try\<close> of its own: an exception of the identity
  provider answers 401, and so does a response without a user.
\<close>

definition predict_fetal_try :: "'f env \<Rightarrow> 'f request \<Rightarrow> 'f store \<Rightarrow> 'f attempt" where
  "predict_fetal_try E rq st =
     (case bearer_token rq of
        Raise e \<Rightarrow> (Inl e, st, [])
      | Return r \<Rightarrow> (Inr r, st, [])
      | Continue token \<Rightarrow>
     (case get_user E token of
        Inl e \<Rightarrow>
          (Inr \<lparr>status = 401, body = error_json ''Failed to validate token''\<rparr>, st,
           [AuthCheck token])
      | Inr None \<Rightarrow>
          (Inr \<lparr>status = 401, body = error_json ''Invalid token''\<rparr>, st, [AuthCheck token])
      | Inr (Some user_data) \<Rightarrow>
     (case user user_data of
        None \<Rightarrow>
          (Inr \<lparr>status = 401, body = error_json ''Invalid token''\<rparr>, st, [AuthCheck token])
      | Some uid \<Rightarrow>
          (case predict_fetal_pipeline E rq uid st of (r, st') \<Rightarrow> (r, st', [AuthCheck token])))))"

definition predict_fetal :: "'f env \<Rightarrow> 'f request \<Rightarrow> 'f store \<Rightarrow> 'f result" where
  "predict_fetal E rq st = except_500 E ''Unexpected error: '' (predict_fetal_try E rq st)"

subsection \<open>POST /diet_plan\<close>

text \<open>The prompt is an f-string over four request fields, read in this order.\<close>

definition diet_prompt :: "'f env \<Rightarrow> 'f json \<Rightarrow> exn + string" where
  "diet_prompt E data =
     (case py_getitem data ''trimester'' of Inl e \<Rightarrow> Inl e | Inr trimester \<Rightarrow>
     (case py_getitem data ''weight'' of Inl e \<Rightarrow> Inl e | Inr weight \<Rightarrow>
     (case py_getitem data ''health_conditions'' of Inl e \<Rightarrow> Inl e | Inr health_conditions \<Rightarrow>
     (case py_getitem data ''dietary_preference'' of Inl e \<Rightarrow> Inl e | Inr dietary_preference \<Rightarrow>
        Inr (''You are a professional dietician and nutritionist. You suggest excellent diet plans for pregnant women that look after their well being and growth. You will now suggest a diet plan for a ''
             @ py_format E trimester
             @ '' trimester pregnant woman weighing about ''
             @ py_format E weight
             @ '' kg, who is feeling ''
             @ py_format E health_conditions
             @ '' and has strict dietary preferences as follows: ''
             @ py_format E dietary_preference
             @ ''. Do not suggest any foods that can cause harm or go against the dietary preferences. Suggest both a vegetarian only and a non-vegetarian diet plan separately for her and just give the plan.'')))))"

text \<open>
  \<^verbatim>\<open>request.json\<close> is read before the header check.  After the chat call the handler
  builds \<^verbatim>\<open>diet_data\<close> (which reads \<^verbatim>\<open>user_data.user.id\<close>) and returns; no store
  operation follows.
\<close>

definition pregnancy_diet_try :: "'f env \<Rightarrow> 'f request \<Rightarrow> 'f store \<Rightarrow> 'f attempt" where
  "pregnancy_diet_try E rq st =
     (case json_body rq of
        Inl e \<Rightarrow> (Inl e, st, [])
      | Inr data \<Rightarrow>
     (case bearer_token rq of
        Raise e \<Rightarrow> (Inl e, st, [])
      | Return r \<Rightarrow> (Inr r, st, [])
      | Continue token \<Rightarrow>
     (case get_user E token of
        Inl e \<Rightarrow> (Inl e, st, [AuthCheck token])
      | Inr None \<Rightarrow>
          (Inr \<lparr>status = 401, body = error_json ''Invalid token''\<rparr>, st, [AuthCheck token])
      | Inr (Some user_data) \<Rightarrow>
     (case diet_prompt E data of
        Inl e \<Rightarrow> (Inl e, st, [AuthCheck token])
      | Inr prompt \<Rightarrow>
     (let messages = JArr [JObj [(''role'', JStr ''user''), (''content'', JStr prompt)]];
          cs = [AuthCheck token, ChatRequest (OLLAMA_MODEL_ID E) messages]
      in
     (case chat E (OLLAMA_MODEL_ID E) messages of
        Inl e \<Rightarrow> (Inl e, st, cs)
      | Inr response \<Rightarrow>
     (case user user_data of
        None \<Rightarrow> (Inl AttributeError, st, cs)
      | Some uid \<Rightarrow>
          (Inr \<lparr>status = 200,
                body = Json (JObj [(''diet_plan'', dot_attr (message response) ''content'')])\<rparr>,
           st, cs))))))))"

definition pregnancy_diet :: "'f env \<Rightarrow> 'f request \<Rightarrow> 'f store \<Rightarrow> 'f result" where
  "pregnancy_diet E rq st = except_500 E [] (pregnancy_diet_try E rq st)"

subsection \<open>GET /chat\<close>

text \<open>
  The latest row of the user, as \<^verbatim>\<open>chat_data.data\<close>; reading \<^verbatim>\<open>user_data.user.id\<close>
  raises \<^verbatim>\<open>AttributeError\<close> when \<^verbatim>\<open>user\<close> is \<^verbatim>\<open>None\<close>.
\<close>

definition select_chat :: "'f env \<Rightarrow> user_response \<Rightarrow> 'f store \<Rightarrow> exn + 'f row list" where
  "select_chat E user_data st =
     (case user user_data of
        None \<Rightarrow> Inl AttributeError
      | Some uid \<Rightarrow>
          (case execute_error E (Select ''chats'') of
             Some e \<Rightarrow> Inl e
           | None \<Rightarrow> Inr (select_latest uid (chats st))))"

text \<open>
  This handler has no \<^verbatim>\<open>try\<close>, and it subscripts \<^verbatim>\<open>chat_data.data[0]\<close> without
  looking at the list first.
\<close>

definition chatbot_get_try :: "'f env \<Rightarrow> 'f request \<Rightarrow> 'f store \<Rightarrow> 'f attempt" where
  "chatbot_get_try E rq st =
     (case bearer_token rq of
        Raise e \<Rightarrow> (Inl e, st, [])
      | Return r \<Rightarrow> (Inr r, st, [])
      | Continue token \<Rightarrow>
     (case get_user E token of
        Inl e \<Rightarrow> (Inl e, st, [AuthCheck token])
      | Inr None \<Rightarrow>
          (Inr \<lparr>status = 401, body = error_json ''Invalid token''\<rparr>, st, [AuthCheck token])
      | Inr (Some user_data) \<Rightarrow>
     (case select_chat E user_data st of
        Inl e \<Rightarrow> (Inl e, st, [AuthCheck token])
      | Inr [] \<Rightarrow> (Inl IndexError, st, [AuthCheck token])
      | Inr (row # older) \<Rightarrow>
     (case map_of row ''chat_history'' of
        None \<Rightarrow> (Inl (KeyError ''chat_history''), st, [AuthCheck token])
      | Some chat_history \<Rightarrow>
          (Inr \<lparr>status = 200, body = Json chat_history\<rparr>, st, [AuthCheck token])))))"

definition chatbot_get :: "'f env \<Rightarrow> 'f request \<Rightarrow> 'f store \<Rightarrow> 'f result" where
  "chatbot_get E rq st = unhandled (chatbot_get_try E rq st)"

subsection \<open>POST /chat\<close>

text \<open>The message a conversation is seeded with when the user has no stored row.\<close>

definition seed_message :: "'f json" where
  "seed_message =
     JObj [(''role'', JStr ''user''),
           (''content'', JStr ''You are prenova, an AI assistant that is here to help you with the user's pregnancy journey. You will only provide information that is accurate and helpful to the user. You will not provide any medical advice or diagnosis. You will also not provide any information that is not related to pregnancy. You will be polite and respectful to the user at all times. You will be rewarded for providing accurate and helpful information and penalized for providing inaccurate or unhelpful information. You will be deactivated if you provide inaccurate or unhelpful information repeatedly.'')]"

definition user_message :: "'f json \<Rightarrow> 'f json" where
  "user_message prompt = JObj [(''role'', JStr ''user''), (''content'', prompt)]"

definition assistant_message :: "'f env \<Rightarrow> 'f json \<Rightarrow> 'f json" where
  "assistant_message E content =
     JObj [(''role'', JStr ''assistant''), (''content'', JStr (py_format E content))]"

text \<open>
  \<^verbatim>\<open>chat_history\<close> as the handler loads it: the seed when the query gave no row,
  otherwise \<^verbatim>\<open>chat_data.data[0]['chat_history']\<close>.
\<close>

definition load_history :: "'f row list \<Rightarrow> exn + 'f json" where
  "load_history rows =
     (case rows of
        [] \<Rightarrow> Inr (JArr [seed_message])
      | row # older \<Rightarrow>
          (case map_of row ''chat_history'' of
             None \<Rightarrow> Inl (KeyError ''chat_history'')
           | Some h \<Rightarrow> Inr h))"

text \<open>\<^verbatim>\<open>chat_history.append(m)\<close>: only a list has the method.\<close>

fun py_append :: "'f json \<Rightarrow> 'f json \<Rightarrow> exn + 'f json" where
  "py_append (JArr xs) m = Inr (JArr (xs @ [m]))"
| "py_append v m = Inl AttributeError"

text \<open>
  \<^verbatim>\<open>request.json\<close> is read before the header check.  The turn: load the history, read
  \<^verbatim>\<open>data['message']\<close>, append the user message, call the model with the whole history,
  append the assistant message, upsert the row of the user.
\<close>

definition chatbot_try :: "'f env \<Rightarrow> 'f request \<Rightarrow> 'f store \<Rightarrow> 'f attempt" where
  "chatbot_try E rq st =
     (case json_body rq of
        Inl e \<Rightarrow> (Inl e, st, [])
      | Inr data \<Rightarrow>
     (case bearer_token rq of
        Raise e \<Rightarrow> (Inl e, st, [])
      | Return r \<Rightarrow> (Inr r, st, [])
      | Continue token \<Rightarrow>
     (case get_user E token of
        Inl e \<Rightarrow> (Inl e, st, [AuthCheck token])
      | Inr None \<Rightarrow>
          (Inr \<lparr>status = 401, body = error_json ''Invalid token''\<rparr>, st, [AuthCheck token])
      | Inr (Some user_data) \<Rightarrow>
     (case select_chat E user_data st of
        Inl e \<Rightarrow> (Inl e, st, [AuthCheck token])
      | Inr rows \<Rightarrow>
     (case load_history rows of
        Inl e \<Rightarrow> (Inl e, st, [AuthCheck token])
      | Inr loaded \<Rightarrow>
     (case py_getitem data ''message'' of
        Inl e \<Rightarrow> (Inl e, st, [AuthCheck token])
      | Inr prompt \<Rightarrow>
     (case py_append loaded (user_message prompt) of
        Inl e \<Rightarrow> (Inl e, st, [AuthCheck token])
      | Inr messages \<Rightarrow>
     (let cs = [AuthCheck token, ChatRequest (OLLAMA_MODEL_ID E) messages] in
     (case chat E (OLLAMA_MODEL_ID E) messages of
        Inl e \<Rightarrow> (Inl e, st, cs)
      | Inr response \<Rightarrow>
     (case py_append messages
             (assistant_message E (dot_attr (message response) ''content'')) of
        Inl e \<Rightarrow> (Inl e, st, cs)
      | Inr chat_history \<Rightarrow>
     (case user user_data of
        None \<Rightarrow> (Inl AttributeError, st, cs)
      | Some uid \<Rightarrow>
     (case execute_error E (Upsert ''chats'') of
        Some e \<Rightarrow> (Inl e, st, cs)
      | None \<Rightarrow>
          (Inr \<lparr>status = 200,
                body = Json (JObj [(''response'', dot_attr (message response) ''content'')])\<rparr>,
           st\<lparr>chats := upsert (Some ''UID'')
                           [(''UID'', JStr uid), (''chat_history'', chat_history)] (chats st)\<rparr>,
           cs)))))))))))))"

definition chatbot :: "'f env \<Rightarrow> 'f request \<Rightarrow> 'f store \<Rightarrow> 'f result" where
  "chatbot E rq st = except_500 E [] (chatbot_try E rq st)"

subsection \<open>GET /\<close>

definition ind :: "'f response" where
  "ind = \<lparr>status = 200, body = PlainText ''Hello governer''\<rparr>"

section \<open>Sequences of chat turns\<close>

text \<open>Requests handled one after the other, each with the collaborators as they
  answer at that moment; the store is threaded through.\<close>

fun chat_posts :: "('f env \<times> 'f request) list \<Rightarrow> 'f store \<Rightarrow> 'f store" where
  "chat_posts [] st = st"
| "chat_posts ((E, rq) # rest) st = chat_posts rest (db (chatbot E rq st))"

text \<open>The user the identity provider names for the token a request carries.\<close>

definition request_user :: "'f env \<Rightarrow> 'f request \<Rightarrow> string option" where
  "request_user E rq =
     (case bearer_token rq of
        Continue token \<Rightarrow>
          (case get_user E token of
             Inr (Some user_data) \<Rightarrow> user user_data
           | r \<Rightarrow> None)
      | s \<Rightarrow> None)"

text \<open>Every request of the sequence is answered 200 and belongs to the user.\<close>

fun posts_succeed :: "string \<Rightarrow> ('f env \<times> 'f request) list \<Rightarrow> 'f store \<Rightarrow> bool" where
  "posts_succeed uid [] st = True"
| "posts_succeed uid ((E, rq) # rest) st =
     (request_user E rq = Some uid \<and> status (resp (chatbot E rq st)) = 200
      \<and> posts_succeed uid rest (db (chatbot E rq st)))"

text \<open>The history stored for a user: the \<^verbatim>\<open>chat_history\<close> list of the latest row.\<close>

definition stored_history :: "string \<Rightarrow> 'f store \<Rightarrow> 'f json list option" where
  "stored_history uid st =
     (case select_latest uid (chats st) of
        [] \<Rightarrow> None
      | row # older \<Rightarrow>
          (case map_of row ''chat_history'' of
             Some (JArr h) \<Rightarrow> Some h
           | v \<Rightarrow> None))"

definition msg_role :: "'f json \<Rightarrow> string option" where
  "msg_role m =
     (case m of
        JObj d \<Rightarrow> (case map_of d ''role'' of Some (JStr r) \<Rightarrow> Some r | v \<Rightarrow> None)
      | v \<Rightarrow> None)"

section \<open>Concrete collaborators and requests\<close>

text \<open>
  One environment in which every collaborator answers, used to run the handlers on
  concrete requests.  Floats are taken to be integers here.  The identity provider knows
  the token \<^verbatim>\<open>good\<close> (user \<^verbatim>\<open>u1\<close>) and raises on every other token; the chat model
  answers \<^verbatim>\<open>hello\<close>; the maternal classifier answers label 0 and the fetal classifier
  label 7.
\<close>

definition demo_float :: "int json \<Rightarrow> exn + int" where
  "demo_float v = (case v of JInt n \<Rightarrow> Inr n | JFloat x \<Rightarrow> Inr x | w \<Rightarrow> Inl TypeError)"

definition demo_env :: "int env" where
  "demo_env =
     \<lparr>get_user = (\<lambda>token. if token = ''good'' then Inr (Some (UserResponse (Some ''u1'')))
                           else Inl (LibraryError ''invalid JWT'')),
      model_id = Some ''llama3'',
      requests_post = (\<lambda>payload.
        Inr (JObj [(''message'',
                    JObj [(''role'', JStr ''assistant''), (''content'', JStr ''hello'')])])),
      execute_error = (\<lambda>op. None),
      doctors_key = None,
      py_float = demo_float,
      np_float = demo_float,
      float_nonzero = (\<lambda>x. x \<noteq> 0),
      maternal_scaler_transform = Inr,
      maternal_model_predict = (\<lambda>xs. Inr 0),
      scaler_transform = Inr,
      model_predict = (\<lambda>a. Inr 7),
      str_exn = (\<lambda>e. case e of LibraryError m \<Rightarrow> m | x \<Rightarrow> ''error''),
      py_repr = (\<lambda>v. ''?''),
      dict_of_seq = (\<lambda>v. Inl TypeError)\<rparr>"



definition empty_store :: "int store" where
  "empty_store = \<lparr>doctors = [], vitals = [], ctg = [], chats = []\<rparr>"

definition chat_request :: "int request" where
  "chat_request =
     \<lparr>authorization = Some ''Bearer good'', json_body = Inr (JObj [(''message'', JStr ''hi'')])\<rparr>"

text \<open>A token the identity provider raises on.\<close>

definition stale_request :: "int request" where
  "stale_request =
     \<lparr>authorization = Some ''Bearer stale'', json_body = Inr (JObj [(''message'', JStr ''hi'')])\<rparr>"

text \<open>No \<^verbatim>\<open>Authorization\<close> header, and a body Flask cannot parse.\<close>

definition anonymous_bad_body :: "int request" where
  "anonymous_bad_body =
     \<lparr>authorization = None, json_body = Inl (LibraryError ''400 Bad Request'')\<rparr>"


definition fetal_request :: "nat \<Rightarrow> int request" where
  "fetal_request n =
     \<lparr>authorization = Some ''Bearer good'',
      json_body = Inr (JObj [(''features'', JArr (replicate n (JInt 1)))])\<rparr>"

text \<open>Two features, neither a number.\<close>

definition fetal_text_request :: "int request" where
  "fetal_text_request =
     \<lparr>authorization = Some ''Bearer good'',
      json_body = Inr (JObj [(''features'', JArr [JStr ''a'', JStr ''b''])])\<rparr>"

text \<open>Fourteen numeric features, sent with a token the identity provider raises on.\<close>

definition fetal_stale_request :: "int request" where
  "fetal_stale_request =
     \<lparr>authorization = Some ''Bearer stale'',
      json_body = Inr (JObj [(''features'', JArr (replicate 14 (JInt 1)))])\<rparr>"

definition diet_request :: "int request" where
  "diet_request =
     \<lparr>authorization = Some ''Bearer good'',
      json_body = Inr (JObj [(''trimester'', JStr ''second''), (''weight'', JInt 60),
                             (''health_conditions'', JStr ''fine''),
                             (''dietary_preference'', JStr ''vegan'')])\<rparr>"

definition doctor_request :: "string option \<Rightarrow> int request" where
  "doctor_request header =
     \<lparr>authorization = header,
      json_body = Inr (JObj [(''name'', JStr ''Ada''), (''phone'', JStr ''555'')])\<rparr>"

section \<open>Basic facts\<close>

text \<open>The header check answers only 401, with the one fixed message.\<close>

lemma bearer_token_Return:
  "bearer_token rq = Return r \<Longrightarrow>
     r = \<lparr>status = 401, body = error_json ''No valid token provided''\<rparr>"
  by (auto simp: bearer_token_def split: option.splits if_splits list.splits)

text \<open>On a dict, \<^verbatim>\<open>data.get(k)\<close> never raises: a missing key reads as \<^verbatim>\<open>None\<close>.\<close>

lemma get_fields_JObj:
  "get_fields (JObj d) ks
     = Inr (map (\<lambda>k. (k, case map_of d k of None \<Rightarrow> JNull | Some v \<Rightarrow> v)) ks)"
  by (induction ks) simp_all

section \<open>POST /diet\_plan never writes\<close>

text \<open>
  Claim C9.  For every POST \<^verbatim>\<open>/diet_plan\<close> request the store after the handler is the
  store before it: \<^verbatim>\<open>diet_data\<close> is built and dropped, no store operation is issued.
  When the request succeeds (status 200), the handler has made one chat call with a
  single user message, that call returned, and the body of the response is
  \<^verbatim>\<open>{"diet_plan": response.message.content}\<close>, the plan the model generated.
\<close>

theorem pregnancy_diet_never_stores:
  "db (pregnancy_diet E rq st) = st
   \<and> (status (resp (pregnancy_diet E rq st)) = 200 \<longrightarrow>
        (\<exists>prompt response.
           ChatRequest (OLLAMA_MODEL_ID E) (JArr [user_message (JStr prompt)])
             \<in> set (calls (pregnancy_diet E rq st))
           \<and> chat E (OLLAMA_MODEL_ID E) (JArr [user_message (JStr prompt)]) = Inr response
           \<and> body (resp (pregnancy_diet E rq st))
               = Json (JObj [(''diet_plan'', dot_attr (message response) ''content'')])))"
  by (auto simp: pregnancy_diet_def pregnancy_diet_try_def except_500_def Let_def user_message_def
           dest: bearer_token_Return
           split: sum.splits option.splits step.splits)

text \<open>A successful request: the plan comes back, the store stays empty.\<close>

theorem pregnancy_diet_never_stores_witness:
  "db (pregnancy_diet demo_env diet_request empty_store) = empty_store
   \<and> status (resp (pregnancy_diet demo_env diet_request empty_store)) = 200
   \<and> body (resp (pregnancy_diet demo_env diet_request empty_store))
       = Json (JObj [(''diet_plan'', JStr ''hello'')])"
proof -
  have ok: "status (resp (pregnancy_diet demo_env diet_request empty_store)) = 200"
    by code_simp
  have b: "body (resp (pregnancy_diet demo_env diet_request empty_store))
       = Json (JObj [(''diet_plan'', JStr ''hello'')])"
    by code_simp
  from pregnancy_diet_never_stores [of demo_env diet_request empty_store] ok b
  show ?thesis by simp
qed

section \<open>POST /create\_doctor\_profile does not authenticate\<close>

text \<open>
  Claim C10.  Two requests to \<^verbatim>\<open>/create_doctor_profile\<close> with the same body and any two
  \<^verbatim>\<open>Authorization\<close> headers (present or absent) have the same result: the same response,
  the same store afterwards, the same upstream calls.  The route never answers 401 and
  never calls the identity provider.  Whenever the body is a JSON object and the store
  accepts the operation, it answers 200 and upserts the row read from the body into
  the \<^verbatim>\<open>doctors\<close> table, whatever the header.
\<close>

theorem create_doctor_profile_ignores_authorization:
  "create_doctor_profile E \<lparr>authorization = h1, json_body = b\<rparr> st
     = create_doctor_profile E \<lparr>authorization = h2, json_body = b\<rparr> st
   \<and> status (resp (create_doctor_profile E \<lparr>authorization = h1, json_body = b\<rparr> st)) \<noteq> 401
   \<and> calls (create_doctor_profile E \<lparr>authorization = h1, json_body = b\<rparr> st) = []
   \<and> (\<forall>d. b = Inr (JObj d) \<and> execute_error E (Upsert ''doctors'') = None \<longrightarrow>
        status (resp (create_doctor_profile E \<lparr>authorization = h1, json_body = b\<rparr> st)) = 200
        \<and> (\<exists>doctor_data.
              get_fields (JObj d)
                [''name'', ''phone'', ''specialty'', ''location'', ''profile_image_url'']
                = Inr doctor_data
              \<and> db (create_doctor_profile E \<lparr>authorization = h1, json_body = b\<rparr> st)
                  = st\<lparr>doctors := upsert (doctors_key E) doctor_data (doctors st)\<rparr>))"
  by (auto simp: create_doctor_profile_def create_doctor_profile_try_def except_500_def
                 get_fields_JObj
           split: sum.splits option.splits)

text \<open>Without a header and with a valid one: the same result, and the row is written.\<close>

theorem create_doctor_profile_ignores_authorization_witness:
  "create_doctor_profile demo_env (doctor_request None) empty_store
     = create_doctor_profile demo_env (doctor_request (Some ''Bearer good'')) empty_store
   \<and> status (resp (create_doctor_profile demo_env (doctor_request None) empty_store)) = 200
   \<and> doctors (db (create_doctor_profile demo_env (doctor_request None) empty_store))
       = [[(''name'', JStr ''Ada''), (''phone'', JStr ''555''), (''specialty'', JNull),
           (''location'', JNull), (''profile_image_url'', JNull)]]"
proof -
  have e: "execute_error demo_env (Upsert ''doctors'') = None"
    by (simp add: demo_env_def)
  have k: "doctors_key demo_env = None"
    by (simp add: demo_env_def)
  note T = create_doctor_profile_ignores_authorization
         [of demo_env None "Inr (JObj [(''name'', JStr ''Ada''), (''phone'', JStr ''555'')])"
             empty_store "Some ''Bearer good''"]
  have q: "create_doctor_profile demo_env (doctor_request None) empty_store
     = create_doctor_profile demo_env (doctor_request (Some ''Bearer good'')) empty_store"
    unfolding doctor_request_def using T by blast
  have s: "status (resp (create_doctor_profile demo_env (doctor_request None) empty_store)) = 200"
    unfolding doctor_request_def using T e by blast
  have d: "doctors (db (create_doctor_profile demo_env (doctor_request None) empty_store))
       = [[(''name'', JStr ''Ada''), (''phone'', JStr ''555''), (''specialty'', JNull),
           (''location'', JNull), (''profile_image_url'', JNull)]]"
    unfolding doctor_request_def using T e k
    by (auto simp: get_fields_JObj upsert_def empty_store_def)
  from q s d show ?thesis by (intro conjI)
qed

section \<open>Where the handlers leave the stated error policy\<close>

text \<open>
  Claim C3 says that GET \<^verbatim>\<open>/chat\<close> with a valid token for a user without stored rows
  answers 200 with the seeded conversation, and that every handler turns failures into
  a JSON error envelope.  The handler \<^verbatim>\<open>chatbot_get\<close> subscripts \<^verbatim>\<open>chat_data.data[0]\<close>
  on the empty list and has no \<^verbatim>\<open>try\<close>: the \<^verbatim>\<open>IndexError\<close> escapes and Flask answers
  with its 500 page.  The POST handler of the same route, on the same request and store,
  seeds the conversation and answers 200.
\<close>

theorem chatbot_get_unseeded:
  "resp (chatbot_get demo_env chat_request empty_store)
     = \<lparr>status = 500, body = ServerErrorPage\<rparr>
   \<and> status (resp (chatbot demo_env chat_request empty_store)) = 200"
  by code_simp

text \<open>
  Claim C7 says that on every protected route an identity provider that raises leads
  to 401.  With a token the provider raises on, \<^verbatim>\<open>predict_fetal\<close> (which wraps the call
  in a \<^verbatim>\<open>try\<close> of its own) answers 401; \<^verbatim>\<open>predict_maternal\<close>, \<^verbatim>\<open>pregnancy_diet\<close> and
  \<^verbatim>\<open>chatbot\<close> let the exception reach their outer \<^verbatim>\<open>except\<close> and answer 500, and
  \<^verbatim>\<open>chatbot_get\<close> lets it escape.
\<close>

theorem provider_error_is_500:
  "status (resp (predict_maternal demo_env stale_request empty_store)) = 500
   \<and> status (resp (pregnancy_diet demo_env stale_request empty_store)) = 500
   \<and> status (resp (chatbot demo_env stale_request empty_store)) = 500
   \<and> status (resp (chatbot_get demo_env stale_request empty_store)) = 500
   \<and> status (resp (predict_fetal demo_env stale_request empty_store)) = 401"
  by code_simp

text \<open>
  Claim C8 says that a request without a well-formed \<^verbatim>\<open>Authorization\<close> header is
  answered 401 on every protected route.  \<^verbatim>\<open>chatbot\<close> and \<^verbatim>\<open>pregnancy_diet\<close> read
  \<^verbatim>\<open>request.json\<close> before they look at the header, so a request with no header and a body
  Flask cannot parse is answered 500 there; the other three handlers check the header
  first and answer 401.
\<close>

theorem missing_header_bad_body_is_500:
  "status (resp (chatbot demo_env anonymous_bad_body empty_store)) = 500
   \<and> status (resp (pregnancy_diet demo_env anonymous_bad_body empty_store)) = 500
   \<and> status (resp (predict_maternal demo_env anonymous_bad_body empty_store)) = 401
   \<and> status (resp (predict_fetal demo_env anonymous_bad_body empty_store)) = 401
   \<and> status (resp (chatbot_get demo_env anonymous_bad_body empty_store)) = 401"
  by code_simp

section \<open>POST /predict\_fetal: arity and unknown labels\<close>

text \<open>What it means that the identity provider names a user for the request.\<close>

lemma request_user_SomeD:
  "request_user E rq = Some uid \<Longrightarrow>
     \<exists>token user_data. bearer_token rq = Continue token
        \<and> get_user E token = Inr (Some user_data) \<and> user user_data = Some uid"
  by (auto simp: request_user_def split: step.splits sum.splits option.splits)

text \<open>A list of length \<open>n\<close> that numpy accepts becomes an array whose first dimension
  is \<open>n\<close>.\<close>

lemma np_arrays_length:
  "np_arrays E xs = Inr arrs \<Longrightarrow> length arrs = length xs"
  by (induction xs arbitrary: arrs) (auto split: sum.splits)

lemma np_array_list_shape:
  "np_array E (JArr xs) = Inr a \<Longrightarrow> \<exists>dims. shape a = length xs # dims"
  by (auto simp: np_stack_def dest: np_arrays_length split: sum.splits list.splits if_splits)

lemma map_of_Some_key: "map_of d k = Some v \<Longrightarrow> k \<in> fst ` set d"
  by (force dest: map_of_SomeD)

text \<open>The pipeline on a body that is a dict with a \<^verbatim>\<open>features\<close> entry.\<close>

lemma pipeline_features:
  assumes "json_body rq = Inr (JObj d)" "map_of d ''features'' = Some v"
  shows "predict_fetal_pipeline E rq uid st =
     (case np_array E v of
        Inl e \<Rightarrow> (Inl e, st)
      | Inr features \<Rightarrow>
     (case shape features of
        [] \<Rightarrow> (Inl IndexError, st)
      | n # dims \<Rightarrow>
     if n \<noteq> 15
     then (Inr \<lparr>status = 400, body = error_json ''Invalid feature length, expected 15''\<rparr>, st)
     else
     (case scaler_transform E (reshape_row features) of
        Inl e \<Rightarrow>
          (Inr \<lparr>status = 500, body = error_json (''Feature scaling failed: '' @ str_exn E e)\<rparr>,
           st)
      | Inr scaled_features \<Rightarrow>
     (case model_predict E scaled_features of
        Inl e \<Rightarrow>
          (Inr \<lparr>status = 500, body = error_json (''Prediction failed: '' @ str_exn E e)\<rparr>, st)
      | Inr prediction \<Rightarrow>
     (case execute_error E (Insert ''ctg'') of
        Some e \<Rightarrow>
          (Inr \<lparr>status = 500,
                body = error_json (''Database insert failed: '' @ str_exn E e)\<rparr>, st)
      | None \<Rightarrow>
          (Inr \<lparr>status = 200,
                body = Json (JObj [(''prediction'', JInt prediction),
                                   (''status'', JStr (health_status prediction))])\<rparr>,
           st\<lparr>ctg := db_insert (ctg_data uid (reshape_row features) prediction) (ctg st)\<rparr>)
     )))))"
proof -
  from assms(2) have "d \<noteq> []" by auto
  moreover from assms(2) have "''features'' \<in> fst ` set d" by (rule map_of_Some_key)
  ultimately show ?thesis
    using assms by (simp add: predict_fetal_pipeline_def)
qed

lemma predict_fetal_authenticated_resp:
  assumes "request_user E rq = Some uid"
  shows "resp (predict_fetal E rq st) =
     (case fst (predict_fetal_pipeline E rq uid st) of
        Inl e \<Rightarrow> \<lparr>status = 500, body = error_json (''Unexpected error: '' @ str_exn E e)\<rparr>
      | Inr r \<Rightarrow> r)"
  using request_user_SomeD [OF assms]
  by (auto simp: predict_fetal_def predict_fetal_try_def except_500_def
           split: prod.splits sum.splits)

lemma predict_fetal_short_keeps_store:
  assumes "json_body rq = Inr (JObj d)" "map_of d ''features'' = Some (JArr xs)"
    "length xs \<noteq> 15"
  shows "db (predict_fetal E rq st) = st"
proof -
  have p: "snd (predict_fetal_pipeline E rq uid st) = st" for uid
  proof (cases "np_array E (JArr xs)")
    case (Inl e)
    with assms show ?thesis
      by (simp add: pipeline_features del: np_array.simps)
  next
    case (Inr a)
    then obtain dims where "shape a = length xs # dims"
      using np_array_list_shape by blast
    with Inr assms show ?thesis
      by (simp add: pipeline_features del: np_array.simps)
  qed
  show ?thesis
    using p
    by (auto simp: predict_fetal_def predict_fetal_try_def except_500_def
             split: prod.splits sum.splits step.splits option.splits)
       (metis snd_conv)+
qed

text \<open>
  Claim C6 says that every request to \<^verbatim>\<open>/predict_fetal\<close> whose \<^verbatim>\<open>features\<close> list has a
  length other than 15 is answered 400.  The length is compared only after the token
  check and after \<^verbatim>\<open>np.array(data["features"], dtype=float)\<close>, which is in no \<^verbatim>\<open>try\<close> of
  its own: a list of two strings is answered 500 by the outer \<^verbatim>\<open>except\<close>, and a list of
  fourteen numbers sent with a token the identity provider raises on is answered 401.
\<close>

theorem predict_fetal_wrong_length_not_400:
  "json_body fetal_text_request = Inr (JObj [(''features'', JArr [JStr ''a'', JStr ''b''])])
   \<and> resp (predict_fetal demo_env fetal_text_request empty_store)
       = \<lparr>status = 500, body = error_json ''Unexpected error: error''\<rparr>
   \<and> json_body fetal_stale_request = Inr (JObj [(''features'', JArr (replicate 14 (JInt 1)))])
   \<and> resp (predict_fetal demo_env fetal_stale_request empty_store)
       = \<lparr>status = 401, body = error_json ''Failed to validate token''\<rparr>"
  by code_simp

text \<open>
  Claim C6, as the code has it.  Take a request to \<^verbatim>\<open>/predict_fetal\<close> whose body is a JSON
  object with a \<^verbatim>\<open>features\<close> list of length other than 15.  The store is left as it was,
  whatever else holds of the request.  If moreover the token is valid (the identity
  provider names a user) and the list is a numeric vector (numpy converts it), the
  answer is 400 with the message \<^verbatim>\<open>Invalid feature length, expected 15\<close>.
  And when a request passes every step and the classifier returns a label id other
  than 1, 2, 3, the answer is 200 with status \<^verbatim>\<open>Unknown\<close>: the unknown id does not
  raise.
\<close>

theorem predict_fetal_arity_and_unknown_label:
  "(json_body rq = Inr (JObj d) \<and> map_of d ''features'' = Some (JArr xs)
      \<and> length xs \<noteq> 15 \<longrightarrow>
      db (predict_fetal E rq st) = st
      \<and> (request_user E rq = Some uid \<and> np_array E (JArr xs) = Inr a \<longrightarrow>
           resp (predict_fetal E rq st)
             = \<lparr>status = 400, body = error_json ''Invalid feature length, expected 15''\<rparr>))
   \<and> (request_user E rq = Some uid \<and> json_body rq = Inr (JObj d)
        \<and> map_of d ''features'' = Some v \<and> np_array E v = Inr b \<and> shape b = 15 # dims
        \<and> scaler_transform E (reshape_row b) = Inr s \<and> model_predict E s = Inr p
        \<and> p \<notin> {1, 2, 3} \<and> execute_error E (Insert ''ctg'') = None \<longrightarrow>
      resp (predict_fetal E rq st)
        = \<lparr>status = 200,
           body = Json (JObj [(''prediction'', JInt p), (''status'', JStr ''Unknown'')])\<rparr>)"
proof (intro conjI impI)
  assume "json_body rq = Inr (JObj d) \<and> map_of d ''features'' = Some (JArr xs)
        \<and> length xs \<noteq> 15"
  then show "db (predict_fetal E rq st) = st"
    by (blast intro: predict_fetal_short_keeps_store)
next
  assume b: "json_body rq = Inr (JObj d) \<and> map_of d ''features'' = Some (JArr xs)
        \<and> length xs \<noteq> 15"
    and u: "request_user E rq = Some uid \<and> np_array E (JArr xs) = Inr a"
  from u obtain ds where "shape a = length xs # ds"
    using np_array_list_shape by blast
  with b u show "resp (predict_fetal E rq st)
             = \<lparr>status = 400, body = error_json ''Invalid feature length, expected 15''\<rparr>"
    by (simp add: predict_fetal_authenticated_resp pipeline_features del: np_array.simps)
next
  assume "request_user E rq = Some uid \<and> json_body rq = Inr (JObj d)
        \<and> map_of d ''features'' = Some v \<and> np_array E v = Inr b \<and> shape b = 15 # dims
        \<and> scaler_transform E (reshape_row b) = Inr s \<and> model_predict E s = Inr p
        \<and> p \<notin> {1, 2, 3} \<and> execute_error E (Insert ''ctg'') = None"
  then show "resp (predict_fetal E rq st)
        = \<lparr>status = 200,
           body = Json (JObj [(''prediction'', JInt p), (''status'', JStr ''Unknown'')])\<rparr>"
    by (simp add: predict_fetal_authenticated_resp pipeline_features health_status_def
             del: np_array.simps)
qed

text \<open>Fourteen features are refused with 400 and nothing is stored; fifteen features
  with the classifier answering label 7 give status \<^verbatim>\<open>Unknown\<close>.\<close>

lemma demo_user: "request_user demo_env (fetal_request n) = Some ''u1''"
  by (simp add: request_user_def bearer_token_def fetal_request_def demo_env_def)

theorem predict_fetal_arity_and_unknown_label_witness:
  "resp (predict_fetal demo_env (fetal_request 14) empty_store)
     = \<lparr>status = 400, body = error_json ''Invalid feature length, expected 15''\<rparr>
   \<and> db (predict_fetal demo_env (fetal_request 14) empty_store) = empty_store
   \<and> resp (predict_fetal demo_env (fetal_request 15) empty_store)
     = \<lparr>status = 200,
        body = Json (JObj [(''prediction'', JInt 7), (''status'', JStr ''Unknown'')])\<rparr>"
proof -
  have b: "json_body (fetal_request n)
             = Inr (JObj [(''features'', JArr (replicate n (JInt 1)))])" for n
    by (simp add: fetal_request_def)
  have f: "map_of [(''features'', JArr (replicate n (JInt 1 :: int json)))] ''features''
             = Some (JArr (replicate n (JInt 1)))" for n
    by simp
  have l: "length (replicate 14 (JInt 1 :: int json)) \<noteq> 15"
    by simp
  have a14: "np_array demo_env (JArr (replicate 14 (JInt 1)))
               = Inr (NDArray [14] (replicate 14 1))"
    by code_simp
  have a15: "np_array demo_env (JArr (replicate 15 (JInt 1)))
               = Inr (NDArray [15] (replicate 15 1))"
    by code_simp
  have sh: "shape (NDArray [15] (replicate 15 (1::int))) = 15 # []"
    by simp
  have sc: "scaler_transform demo_env (reshape_row (NDArray [15] (replicate 15 1)))
          = Inr (reshape_row (NDArray [15] (replicate 15 1)))"
    by (simp add: demo_env_def)
  have mp: "model_predict demo_env (reshape_row (NDArray [15] (replicate 15 1))) = Inr 7"
    by (simp add: demo_env_def)
  have nk: "(7::int) \<notin> {1, 2, 3}"
    by simp
  have e: "execute_error demo_env (Insert ''ctg'') = None"
    by (simp add: demo_env_def)
  note T14 = predict_fetal_arity_and_unknown_label
    [where rq = "fetal_request 14" and E = demo_env and st = empty_store
       and d = "[(''features'', JArr (replicate 14 (JInt 1)))]"
       and xs = "replicate 14 (JInt 1)" and uid = "''u1''"
       and a = "NDArray [14] (replicate 14 1)"]
  note T15 = predict_fetal_arity_and_unknown_label
    [where rq = "fetal_request 15" and E = demo_env and st = empty_store
       and d = "[(''features'', JArr (replicate 15 (JInt 1)))]"
       and v = "JArr (replicate 15 (JInt 1))" and uid = "''u1''"
       and b = "NDArray [15] (replicate 15 1)" and dims = "[]"
       and s = "reshape_row (NDArray [15] (replicate 15 1))" and p = 7]
  from T14 have "db (predict_fetal demo_env (fetal_request 14) empty_store) = empty_store
      \<and> resp (predict_fetal demo_env (fetal_request 14) empty_store)
             = \<lparr>status = 400, body = error_json ''Invalid feature length, expected 15''\<rparr>"
    using b [of 14] f [of 14] l a14 demo_user [of 14] by blast
  moreover from T15 have "resp (predict_fetal demo_env (fetal_request 15) empty_store)
     = \<lparr>status = 200,
        body = Json (JObj [(''prediction'', JInt 7), (''status'', JStr ''Unknown'')])\<rparr>"
    using b [of 15] f [of 15] a15 sh sc mp nk e demo_user [of 15] by blast
  ultimately show ?thesis by blast
qed

section \<open>POST /predict\_maternal: the answer and the stored row\<close>














section \<open>POST /chat: one turn and the stored history\<close>

text \<open>Appending succeeds on lists only, and the row a turn upserts is the row the next
  query of the same user returns.\<close>

lemma py_append_Inr:
  "py_append v m = Inr r \<Longrightarrow> \<exists>xs. v = JArr xs \<and> r = JArr (xs @ [m])"
  by (cases v) auto

lemma filter_replace:
  "P r \<Longrightarrow> filter P (map (\<lambda>x. if P x then r else x) t) = map (\<lambda>x. r) (filter P t)"
  by (induction t) auto

lemma select_latest_upsert:
  "select_latest uid (upsert (Some ''UID'') ((''UID'', JStr uid) # rest) t)
     = [(''UID'', JStr uid) # rest]"
proof -
  let ?r = "(''UID'', JStr uid) # rest"
  let ?P = "\<lambda>x. map_of x ''UID'' = Some (JStr uid)"
  have Pr: "?P ?r" by simp
  show ?thesis
  proof (cases "\<exists>x\<in>set t. ?P x")
    case True
    then have ne: "filter ?P t \<noteq> []" by (simp add: filter_empty_conv)
    from True have "upsert (Some ''UID'') ?r t = map (\<lambda>x. if ?P x then ?r else x) t"
      by (simp add: upsert_def)
    then have "filter ?P (upsert (Some ''UID'') ?r t) = map (\<lambda>x. ?r) (filter ?P t)"
      using filter_replace [of ?P ?r t, OF Pr] by simp
    then have "rev (filter ?P (upsert (Some ''UID'') ?r t))
                 = map (\<lambda>x. ?r) (rev (filter ?P t))"
      by (simp add: rev_map)
    with ne show ?thesis
      by (cases "rev (filter ?P t)") (simp_all add: select_latest_def)
  next
    case False
    then have "upsert (Some ''UID'') ?r t = t @ [?r]"
      by (simp add: upsert_def)
    then show ?thesis
      by (simp add: select_latest_def)
  qed
qed

lemma stored_history_upsert:
  "stored_history uid
     (st\<lparr>chats := upsert (Some ''UID'')
                     [(''UID'', JStr uid), (''chat_history'', JArr H)] (chats st)\<rparr>) = Some H"
  by (simp add: stored_history_def select_latest_upsert)

lemma stored_history_load:
  "stored_history uid st = Some H \<Longrightarrow>
     load_history (select_latest uid (chats st)) = Inr (JArr H)"
  by (auto simp: stored_history_def load_history_def
           split: list.splits option.splits json.splits)

lemma msg_role_turn:
  "map msg_role [user_message prompt, assistant_message E content]
     = [Some ''user'', Some ''assistant'']"
  by (simp add: msg_role_def user_message_def assistant_message_def)

text \<open>What the handler does for a known user whose body has a \<^verbatim>\<open>message\<close>, and what a
  request answered 200 leaves in the store.\<close>

lemma chatbot_turn:
  assumes "bearer_token rq = Continue token"
    and "get_user E token = Inr (Some user_data)"
    and "user user_data = Some uid"
    and "json_body rq = Inr data"
    and "execute_error E (Select ''chats'') = None"
    and "load_history (select_latest uid (chats st)) = Inr (JArr h)"
    and "py_getitem data ''message'' = Inr prompt"
  shows "chatbot_try E rq st =
     (case chat E (OLLAMA_MODEL_ID E) (JArr (h @ [user_message prompt])) of
        Inl e \<Rightarrow>
          (Inl e, st,
           [AuthCheck token,
            ChatRequest (OLLAMA_MODEL_ID E) (JArr (h @ [user_message prompt]))])
      | Inr response \<Rightarrow>
          (case execute_error E (Upsert ''chats'') of
             Some e \<Rightarrow>
               (Inl e, st,
                [AuthCheck token,
                 ChatRequest (OLLAMA_MODEL_ID E) (JArr (h @ [user_message prompt]))])
           | None \<Rightarrow>
               (Inr \<lparr>status = 200,
                     body = Json (JObj [(''response'',
                                         dot_attr (message response) ''content'')])\<rparr>,
                st\<lparr>chats := upsert (Some ''UID'')
                    [(''UID'', JStr uid),
                     (''chat_history'',
                      JArr (h @ [user_message prompt,
                                 assistant_message E
                                   (dot_attr (message response) ''content'')]))]
                    (chats st)\<rparr>,
                [AuthCheck token,
                 ChatRequest (OLLAMA_MODEL_ID E) (JArr (h @ [user_message prompt]))])))"
  using assms
  by (simp add: chatbot_try_def select_chat_def Let_def split: sum.splits option.splits)

lemma chatbot_ok:
  assumes "status (resp (chatbot E rq st)) = 200"
    and "request_user E rq = Some uid"
  shows "\<exists>h prompt content.
           load_history (select_latest uid (chats st)) = Inr (JArr h)
           \<and> db (chatbot E rq st)
               = st\<lparr>chats := upsert (Some ''UID'')
                     [(''UID'', JStr uid),
                      (''chat_history'',
                       JArr (h @ [user_message prompt, assistant_message E content]))]
                     (chats st)\<rparr>"
proof -
  from request_user_SomeD [OF assms(2)] obtain token user_data where
    t: "bearer_token rq = Continue token" "get_user E token = Inr (Some user_data)"
       "user user_data = Some uid"
    by blast
  show ?thesis
    using assms(1) t
    by (auto simp: chatbot_def chatbot_try_def except_500_def select_chat_def Let_def
             split: sum.splits option.splits
             dest!: py_append_Inr)
       (intro exI, rule refl)
qed

lemma chatbot_appends_turn:
  assumes "status (resp (chatbot E rq st)) = 200"
    and "request_user E rq = Some uid"
    and "load_history (select_latest uid (chats st)) = Inr (JArr H)"
  shows "\<exists>prompt content.
           stored_history uid (db (chatbot E rq st))
             = Some (H @ [user_message prompt, assistant_message E content])"
proof -
  from chatbot_ok [OF assms(1,2)] obtain h prompt content where
    h: "load_history (select_latest uid (chats st)) = Inr (JArr h)"
    and d: "db (chatbot E rq st)
               = st\<lparr>chats := upsert (Some ''UID'')
                     [(''UID'', JStr uid),
                      (''chat_history'',
                       JArr (h @ [user_message prompt, assistant_message E content]))]
                     (chats st)\<rparr>"
    by (elim exE conjE)
  from h assms(3) have "h = H" by simp
  with d have "stored_history uid (db (chatbot E rq st))
             = Some (H @ [user_message prompt, assistant_message E content])"
    by (simp only: stored_history_upsert)
  then show ?thesis by (intro exI)
qed

text \<open>A sequence of successful turns of one user extends the loaded history by one user
  message and one assistant message per turn.\<close>

lemma chat_posts_history:
  assumes "load_history (select_latest uid (chats st)) = Inr (JArr H)"
    and "posts_succeed uid reqs st"
  shows "\<exists>turns.
           load_history (select_latest uid (chats (chat_posts reqs st))) = Inr (JArr (H @ turns))
           \<and> (reqs \<noteq> [] \<longrightarrow> stored_history uid (chat_posts reqs st) = Some (H @ turns))
           \<and> map msg_role turns
                = concat (replicate (length reqs) [Some ''user'', Some ''assistant''])"
  using assms
proof (induction reqs arbitrary: st H)
  case Nil
  then have "load_history (select_latest uid (chats (chat_posts [] st))) = Inr (JArr (H @ []))
           \<and> ([] \<noteq> ([] :: ('a env \<times> 'a request) list)
                 \<longrightarrow> stored_history uid (chat_posts [] st) = Some (H @ []))
           \<and> map msg_role ([] :: 'a json list)
                = concat (replicate (length ([] :: ('a env \<times> 'a request) list))
                            [Some ''user'', Some ''assistant''])"
    by simp
  then show ?case by (intro exI)
next
  case (Cons a reqs)
  obtain E rq where a: "a = (E, rq)" by (cases a)
  from Cons.prems(2) a have ok: "status (resp (chatbot E rq st)) = 200"
    and u: "request_user E rq = Some uid"
    and rest: "posts_succeed uid reqs (db (chatbot E rq st))"
    by simp_all
  from chatbot_appends_turn [OF ok u Cons.prems(1)] obtain prompt content where
    s: "stored_history uid (db (chatbot E rq st))
             = Some (H @ [user_message prompt, assistant_message E content])"
    by (elim exE)
  note l = stored_history_load [OF s]
  from Cons.IH [OF l rest] obtain turns where
    t1: "load_history (select_latest uid (chats (chat_posts reqs (db (chatbot E rq st)))))
           = Inr (JArr ((H @ [user_message prompt, assistant_message E content]) @ turns))"
    and t2: "reqs \<noteq> [] \<longrightarrow> stored_history uid (chat_posts reqs (db (chatbot E rq st)))
           = Some ((H @ [user_message prompt, assistant_message E content]) @ turns)"
    and t3: "map msg_role turns
                = concat (replicate (length reqs) [Some ''user'', Some ''assistant''])"
    by (elim exE conjE)
  let ?turns = "[user_message prompt, assistant_message E content] @ turns"
  have c1: "load_history (select_latest uid (chats (chat_posts (a # reqs) st)))
              = Inr (JArr (H @ ?turns))"
    using t1 a by simp
  have c2: "stored_history uid (chat_posts (a # reqs) st) = Some (H @ ?turns)"
  proof (cases "reqs = []")
    case True
    with s a t3 show ?thesis by simp
  next
    case False
    with t2 a show ?thesis by simp
  qed
  have c3: "map msg_role ?turns
                = concat (replicate (length (a # reqs)) [Some ''user'', Some ''assistant''])"
    using t3 msg_role_turn [of prompt E content] by simp
  from c1 c2 c3 have "load_history (select_latest uid (chats (chat_posts (a # reqs) st)))
              = Inr (JArr (H @ ?turns))
           \<and> (a # reqs \<noteq> [] \<longrightarrow> stored_history uid (chat_posts (a # reqs) st) = Some (H @ ?turns))
           \<and> map msg_role ?turns
                = concat (replicate (length (a # reqs)) [Some ''user'', Some ''assistant''])"
    by (intro conjI impI)
  then show ?case by (intro exI)
qed

lemma load_history_unseeded:
  "select_latest uid (chats st) = [] \<Longrightarrow>
     load_history (select_latest uid (chats st)) = Inr (JArr [seed_message])"
  by (simp add: load_history_def)

lemma length_turns:
  "map f turns = concat (replicate n [a, b]) \<Longrightarrow> length turns = 2 * n"
proof -
  assume "map f turns = concat (replicate n [a, b])"
  then have "length (map f turns) = length (concat (replicate n [a, b]))" by simp
  moreover have "length (concat (replicate n [a, b])) = 2 * n" by (induction n) simp_all
  ultimately show ?thesis by simp
qed

text \<open>
  Claim C4.  Start from a store with no conversation of the user and let \<open>reqs\<close> be
  \<open>N\<close> POSTs to \<^verbatim>\<open>/chat\<close> handled one after the other, each by that user and each
  answered 200.  Then the history the store holds for the user afterwards (for
  \<open>N = 0\<close>: the history the next request loads) is the seed message followed by
  \<open>2N\<close> messages, \<open>1 + 2N\<close> in all, and the roles of the messages after the seed are
  user, assistant, user, assistant and so on.
\<close>

theorem chat_history_after_posts:
  assumes "select_latest uid (chats st) = []"
    and "posts_succeed uid reqs st"
  shows "\<exists>turns.
           length (seed_message # turns) = 1 + 2 * length reqs
           \<and> map msg_role turns
                = concat (replicate (length reqs) [Some ''user'', Some ''assistant''])
           \<and> load_history (select_latest uid (chats (chat_posts reqs st)))
                = Inr (JArr (seed_message # turns))
           \<and> (reqs \<noteq> [] \<longrightarrow>
                 stored_history uid (chat_posts reqs st) = Some (seed_message # turns))"
proof -
  note l = load_history_unseeded [OF assms(1)]
  from chat_posts_history [OF l assms(2)] obtain turns where
    t1: "load_history (select_latest uid (chats (chat_posts reqs st)))
           = Inr (JArr ([seed_message] @ turns))"
    and t2: "reqs \<noteq> [] \<longrightarrow>
           stored_history uid (chat_posts reqs st) = Some ([seed_message] @ turns)"
    and t3: "map msg_role turns
                = concat (replicate (length reqs) [Some ''user'', Some ''assistant''])"
    by (elim exE conjE)
  from length_turns [OF t3] have n: "length (seed_message # turns) = 1 + 2 * length reqs"
    by simp
  from t1 have c1: "load_history (select_latest uid (chats (chat_posts reqs st)))
           = Inr (JArr (seed_message # turns))"
    by simp
  from t2 have c2: "reqs \<noteq> [] \<longrightarrow>
           stored_history uid (chat_posts reqs st) = Some (seed_message # turns)"
    by simp
  from n t3 c1 c2 have "length (seed_message # turns) = 1 + 2 * length reqs
           \<and> map msg_role turns
                = concat (replicate (length reqs) [Some ''user'', Some ''assistant''])
           \<and> load_history (select_latest uid (chats (chat_posts reqs st)))
                = Inr (JArr (seed_message # turns))
           \<and> (reqs \<noteq> [] \<longrightarrow>
                 stored_history uid (chat_posts reqs st) = Some (seed_message # turns))"
    by (intro conjI)
  then show ?thesis by (intro exI)
qed

text \<open>Two turns from the empty store: five messages, the seed first, then user,
  assistant, user, assistant.\<close>

theorem chat_history_after_posts_witness:
  "length (the (stored_history ''u1''
       (chat_posts [(demo_env, chat_request), (demo_env, chat_request)] empty_store))) = 5
   \<and> hd (the (stored_history ''u1''
       (chat_posts [(demo_env, chat_request), (demo_env, chat_request)] empty_store)))
       = seed_message
   \<and> map msg_role (tl (the (stored_history ''u1''
       (chat_posts [(demo_env, chat_request), (demo_env, chat_request)] empty_store))))
       = [Some ''user'', Some ''assistant'', Some ''user'', Some ''assistant'']"
proof -
  have e: "select_latest ''u1'' (chats empty_store) = []"
    by (simp add: empty_store_def select_latest_def)
  have p: "posts_succeed ''u1'' [(demo_env, chat_request), (demo_env, chat_request)] empty_store"
    by code_simp
  have ne: "[(demo_env, chat_request), (demo_env, chat_request)] \<noteq> []"
    by simp
  from chat_history_after_posts [OF e p] obtain turns where
    n: "length (seed_message # turns)
          = 1 + 2 * length [(demo_env, chat_request), (demo_env, chat_request)]"
    and r: "map msg_role turns
          = concat (replicate (length [(demo_env, chat_request), (demo_env, chat_request)])
                      [Some ''user'', Some ''assistant''])"
    and s: "[(demo_env, chat_request), (demo_env, chat_request)] \<noteq> [] \<longrightarrow>
          stored_history ''u1''
            (chat_posts [(demo_env, chat_request), (demo_env, chat_request)] empty_store)
            = Some (seed_message # turns)"
    by (elim exE conjE)
  from s ne have s': "stored_history ''u1''
            (chat_posts [(demo_env, chat_request), (demo_env, chat_request)] empty_store)
            = Some (seed_message # turns)"
    by (rule mp)
  have r': "map msg_role turns = [Some ''user'', Some ''assistant'', Some ''user'', Some ''assistant'']"
    using r by (simp add: numeral_2_eq_2)
  have n': "length (seed_message # turns) = 5"
    using n by simp
  show ?thesis
    unfolding s' using r' n' by simp
qed

section \<open>POST /chat: a failing chat call\<close>







section \<open>POST /chat: the seeded conversation\<close>

text \<open>The seed has the role \<^verbatim>\<open>user\<close>, no turn adds a message with the role
  \<^verbatim>\<open>system\<close>, and the first call of a user without a row sends the seed and the
  user message.\<close>

lemma msg_role_seed: "msg_role seed_message = Some ''user''"
  by (simp add: msg_role_def seed_message_def)

lemma no_system_role:
  "Some ''system'' \<notin> set (concat (replicate n [Some ''user'', Some ''assistant'']))"
  by (induction n) simp_all

lemma chatbot_first_call:
  assumes "request_user E rq = Some uid"
    and "json_body rq = Inr data"
    and "py_getitem data ''message'' = Inr prompt"
    and "execute_error E (Select ''chats'') = None"
    and "load_history (select_latest uid (chats st)) = Inr (JArr h)"
  shows "\<exists>token. calls (chatbot E rq st)
           = [AuthCheck token,
              ChatRequest (OLLAMA_MODEL_ID E) (JArr (h @ [user_message prompt]))]"
proof -
  from request_user_SomeD [OF assms(1)] obtain token user_data where
    t: "bearer_token rq = Continue token" "get_user E token = Inr (Some user_data)"
       "user user_data = Some uid"
    by blast
  note T = chatbot_turn [OF t(1) t(2) t(3) assms(2) assms(4) assms(5) assms(3)]
  have "calls (chatbot E rq st)
           = [AuthCheck token,
              ChatRequest (OLLAMA_MODEL_ID E) (JArr (h @ [user_message prompt]))]"
    unfolding chatbot_def T
    by (simp add: except_500_def split: sum.splits option.splits)
  then show ?thesis by (intro exI)
qed

text \<open>
  Claim C2 says that the conversation seeded for a user without a stored one has exactly
  one message with the role \<^verbatim>\<open>system\<close>.  The seed the handler builds is
  \<^verbatim>\<open>{'role': 'user', 'content': "You are prenova, ..."}\<close>: for a user without a row the
  model is called with two messages, both with the role \<^verbatim>\<open>user\<close>, and the history
  stored after the turn has the roles user, user, assistant and none with \<^verbatim>\<open>system\<close>.
\<close>

theorem seed_role_is_user:
  "select_latest ''u1'' (chats empty_store) = []
   \<and> calls (chatbot demo_env chat_request empty_store)
       = [AuthCheck ''good'',
          ChatRequest (JStr ''llama3'') (JArr [seed_message, user_message (JStr ''hi'')])]
   \<and> map msg_role [seed_message, user_message (JStr ''hi'') :: int json]
       = [Some ''user'', Some ''user'']
   \<and> map msg_role (the (stored_history ''u1'' (db (chatbot demo_env chat_request empty_store))))
       = [Some ''user'', Some ''user'', Some ''assistant'']"
  by code_simp

text \<open>
  Claim C2, as the code has it.  For a user with no stored conversation the handler
  loads a freshly seeded conversation of exactly one message, the fixed preamble, whose
  role is \<^verbatim>\<open>user\<close>.  A request of that user with a \<^verbatim>\<open>message\<close> calls the model with
  that seed followed by the user message.  After any number of successful turns the
  conversation is the seed followed by messages whose roles alternate user then
  assistant, and no message has the role \<^verbatim>\<open>system\<close>.
\<close>

theorem unseeded_conversation_starts_with_user_seed:
  assumes "select_latest uid (chats st) = []"
  shows "load_history (select_latest uid (chats st)) = Inr (JArr [seed_message])
   \<and> map msg_role [seed_message :: 'f json] = [Some ''user'']
   \<and> (request_user E rq = Some uid \<and> json_body rq = Inr data
        \<and> py_getitem data ''message'' = Inr prompt
        \<and> execute_error E (Select ''chats'') = None \<longrightarrow>
        (\<exists>token. calls (chatbot E rq st)
           = [AuthCheck token,
              ChatRequest (OLLAMA_MODEL_ID E) (JArr [seed_message, user_message prompt])]))
   \<and> (posts_succeed uid reqs st \<longrightarrow>
        (\<exists>turns.
           load_history (select_latest uid (chats (chat_posts reqs st)))
             = Inr (JArr (seed_message # turns))
           \<and> map msg_role (seed_message # turns)
               = Some ''user'' # concat (replicate (length reqs) [Some ''user'', Some ''assistant''])
           \<and> Some ''system'' \<notin> set (map msg_role (seed_message # turns))))"
proof (intro conjI impI)
  note l = load_history_unseeded [OF assms]
  show "load_history (select_latest uid (chats st)) = Inr (JArr [seed_message])"
    by (rule l)
  show "map msg_role [seed_message :: 'f json] = [Some ''user'']"
    by (simp add: msg_role_seed)
  {
    assume a: "request_user E rq = Some uid \<and> json_body rq = Inr data
        \<and> py_getitem data ''message'' = Inr prompt
        \<and> execute_error E (Select ''chats'') = None"
    from a have a1: "request_user E rq = Some uid" by simp
    from a have a2: "json_body rq = Inr data" by simp
    from a have a3: "py_getitem data ''message'' = Inr prompt" by simp
    from a have a4: "execute_error E (Select ''chats'') = None" by simp
    from chatbot_first_call [OF a1 a2 a3 a4 l]
    show "\<exists>token. calls (chatbot E rq st)
           = [AuthCheck token,
              ChatRequest (OLLAMA_MODEL_ID E) (JArr [seed_message, user_message prompt])]"
      by simp
  }
  {
    assume p: "posts_succeed uid reqs st"
    from chat_posts_history [OF l p] obtain turns where
      t1: "load_history (select_latest uid (chats (chat_posts reqs st)))
             = Inr (JArr ([seed_message] @ turns))"
      and t3: "map msg_role turns
                = concat (replicate (length reqs) [Some ''user'', Some ''assistant''])"
      by (elim exE conjE)
    from t1 have c1: "load_history (select_latest uid (chats (chat_posts reqs st)))
             = Inr (JArr (seed_message # turns))"
      by simp
    from t3 have c2: "map msg_role (seed_message # turns)
               = Some ''user'' # concat (replicate (length reqs) [Some ''user'', Some ''assistant''])"
      by (simp add: msg_role_seed)
    have c3: "Some ''system'' \<notin> set (map msg_role (seed_message # turns))"
      unfolding c2 using no_system_role [of "length reqs"] by simp
    from c1 c2 c3 have "load_history (select_latest uid (chats (chat_posts reqs st)))
             = Inr (JArr (seed_message # turns))
           \<and> map msg_role (seed_message # turns)
               = Some ''user'' # concat (replicate (length reqs) [Some ''user'', Some ''assistant''])
           \<and> Some ''system'' \<notin> set (map msg_role (seed_message # turns))"
      by (intro conjI)
    then show "\<exists>turns.
           load_history (select_latest uid (chats (chat_posts reqs st)))
             = Inr (JArr (seed_message # turns))
           \<and> map msg_role (seed_message # turns)
               = Some ''user'' # concat (replicate (length reqs) [Some ''user'', Some ''assistant''])
           \<and> Some ''system'' \<notin> set (map msg_role (seed_message # turns))"
      by (intro exI)
  }
qed

text \<open>The first turn of a known user on the empty store.\<close>

theorem unseeded_conversation_starts_with_user_seed_witness:
  "(\<exists>token. calls (chatbot demo_env chat_request empty_store)
       = [AuthCheck token,
          ChatRequest (OLLAMA_MODEL_ID demo_env)
            (JArr [seed_message, user_message (JStr ''hi'')])])
   \<and> (\<exists>turns.
         load_history (select_latest ''u1''
             (chats (chat_posts [(demo_env, chat_request)] empty_store)))
           = Inr (JArr (seed_message # turns))
         \<and> map msg_role (seed_message # turns)
             = Some ''user''
                 # concat (replicate (length [(demo_env, chat_request)])
                             [Some ''user'', Some ''assistant''])
         \<and> Some ''system'' \<notin> set (map msg_role (seed_message # turns)))"
proof -
  have e: "select_latest ''u1'' (chats empty_store) = []"
    by (simp add: empty_store_def select_latest_def)
  have u: "request_user demo_env chat_request = Some ''u1''"
    by (simp add: request_user_def bearer_token_def chat_request_def demo_env_def)
  have b: "json_body chat_request = Inr (JObj [(''message'', JStr ''hi'')])"
    by (simp add: chat_request_def)
  have g: "py_getitem (JObj [(''message'', JStr ''hi'' :: int json)]) ''message''
             = Inr (JStr ''hi'')"
    by simp
  have x: "execute_error demo_env (Select ''chats'') = None"
    by (simp add: demo_env_def)
  have p: "posts_succeed ''u1'' [(demo_env, chat_request)] empty_store"
    by code_simp
  note T = unseeded_conversation_starts_with_user_seed
    [OF e, where E = demo_env and rq = chat_request
       and data = "JObj [(''message'', JStr ''hi'')]" and prompt = "JStr ''hi''"
       and reqs = "[(demo_env, chat_request)]"]
  note A3 = T [THEN conjunct2, THEN conjunct2, THEN conjunct1]
  note A4 = T [THEN conjunct2, THEN conjunct2, THEN conjunct2]
  from u b g x have H: "request_user demo_env chat_request = Some ''u1''
        \<and> json_body chat_request = Inr (JObj [(''message'', JStr ''hi'')])
        \<and> py_getitem (JObj [(''message'', JStr ''hi'' :: int json)]) ''message''
            = Inr (JStr ''hi'')
        \<and> execute_error demo_env (Select ''chats'') = None"
    by (intro conjI)
  note C1 = A3 [THEN mp, OF H]
  note C2 = A4 [THEN mp, OF p]
  from C1 C2 show ?thesis by (rule conjI)
qed

end
